theory Spec2Isabelle
  imports Main
begin

section \<open>The Wiz GraphQL proxy (wiz-graphql-proxy.py)\<close>

text \<open>
  The proxy keeps one OAuth access token in a process-wide cache, refreshes it from the
  identity provider when the cache does not hold a usable one, and forwards GraphQL
  requests to the upstream API with that token. The two functions of the source that
  carry this behaviour, \<open>get_wiz_token\<close> and \<open>proxy_graphql\<close>, are embedded here as
  pure functions: the cache is passed in and returned, every exception is a value
  \<open>Inl e\<close>, and what the function does to the outside (log lines, the two outbound HTTP
  calls) is returned as a list of events in the order the source performs them. What
  the outside answers (the clock readings, the identity provider's reply, the upstream
  reply) is an argument, the \<open>world\<close> of one call.
\<close>

subsection \<open>Python values\<close>

text \<open>
  The values \<open>response.json()\<close> and \<open>request.get_json()\<close> produce. \<open>JNull\<close> is Python's
  \<open>None\<close>, a \<open>JObject\<close> a \<open>dict\<close> in insertion order. JSON numbers are Python ints here;
  numbers with a fraction or an exponent (Python floats) are not part of the embedding.
\<close>

datatype json =
    JNull
  | JBool bool
  | JInt int
  | JString string
  | JArray "json list"
  | JObject "(string \<times> json) list"

text \<open>Truth value testing, as \<open>if x\<close> and \<open>x and y\<close> apply it.\<close>

fun truthy :: "json \<Rightarrow> bool" where
  "truthy JNull = False"
| "truthy (JBool b) = b"
| "truthy (JInt n) = (n \<noteq> 0)"
| "truthy (JString s) = (s \<noteq> [])"
| "truthy (JArray xs) = (xs \<noteq> [])"
| "truthy (JObject kvs) = (kvs \<noteq> [])"

text \<open>
  The exceptions the two functions can meet. \<open>RequestException m\<close> is what
  \<open>requests.post\<close> raises itself (connection failure, timeout) with message \<open>m\<close>;
  \<open>HTTPError s\<close> is raised by \<open>raise_for_status\<close> on status \<open>s\<close>; \<open>JSONDecodeError\<close> by
  \<open>response.json()\<close>; both are subclasses of \<open>RequestException\<close> (the second since
  requests 2.27; before, it was a plain \<open>ValueError\<close>). \<open>HTTPException s\<close> is
  what \<open>request.get_json()\<close> raises for a request body it cannot decode (BadRequest,
  400) or a content type that is not JSON (UnsupportedMediaType, 415).
\<close>

datatype exn =
    RequestException string
  | HTTPError int
  | JSONDecodeError
  | KeyError string
  | TypeError
  | AttributeError
  | OverflowError
  | HTTPException int

fun is_RequestException :: "exn \<Rightarrow> bool" where
  "is_RequestException (RequestException m) = True"
| "is_RequestException (HTTPError s) = True"
| "is_RequestException JSONDecodeError = True"
| "is_RequestException e = False"

text \<open>\<open>x[k]\<close> with a string key: only a dict can be subscripted that way.\<close>

fun py_getitem :: "json \<Rightarrow> string \<Rightarrow> exn + json" where
  "py_getitem (JObject kvs) k =
     (case map_of kvs k of None \<Rightarrow> Inl (KeyError k) | Some v \<Rightarrow> Inr v)"
| "py_getitem x k = Inl TypeError"

text \<open>\<open>x.get(k, d)\<close>: a method of dict alone.\<close>

fun py_get :: "json \<Rightarrow> string \<Rightarrow> json \<Rightarrow> exn + json" where
  "py_get (JObject kvs) k d = (case map_of kvs k of None \<Rightarrow> Inr d | Some v \<Rightarrow> Inr v)"
| "py_get x k d = Inl AttributeError"

text \<open>\<open>x - n\<close> for an int \<open>n\<close>: defined on ints and on bools (\<open>True\<close> is 1).\<close>

fun py_sub :: "json \<Rightarrow> int \<Rightarrow> exn + int" where
  "py_sub (JInt a) n = Inr (a - n)"
| "py_sub (JBool b) n = Inr ((if b then 1 else 0) - n)"
| "py_sub x n = Inl TypeError"

subsection \<open>Time\<close>

text \<open>
  A naive \<open>datetime\<close> is the number of microseconds since \<open>datetime.min\<close>
  (0001-01-01 00:00:00), up to \<open>datetime.max\<close> (9999-12-31 23:59:59.999999); a
  \<open>timedelta\<close> is a number of microseconds, of at most 999999999 days either way.
\<close>

definition us_per_second :: int where
  "us_per_second = 1000000"

definition datetime_max :: int where
  "datetime_max = 3652059 * 86400 * us_per_second - 1"

definition timedelta_seconds :: "int \<Rightarrow> exn + int" where
  "timedelta_seconds n =
     (if - 999999999 \<le> n div 86400 \<and> n div 86400 \<le> 999999999
      then Inr (n * us_per_second) else Inl OverflowError)"

definition datetime_add :: "int \<Rightarrow> int \<Rightarrow> exn + int" where
  "datetime_add t d =
     (if 0 \<le> t + d \<and> t + d \<le> datetime_max then Inr (t + d) else Inl OverflowError)"

subsection \<open>The token cache and the outside world\<close>

record token_cache =
  access_token :: json
  expires_at :: "int option"

definition initial_token_cache :: token_cache where
  "initial_token_cache = \<lparr>access_token = JNull, expires_at = None\<rparr>"

text \<open>What \<open>response.json()\<close> finds in the identity provider's reply.\<close>

datatype reply_body = NotJson | JsonBody json

text \<open>
  The outcome of the POST to the token endpoint: \<open>requests.post\<close> raises, or returns a
  response with a status code and a body.
\<close>

datatype auth_outcome = AuthFailure string | AuthReply int reply_body

text \<open>The outcome of the POST to the GraphQL endpoint: status code and content.\<close>

datatype upstream_outcome = UpstreamFailure string | UpstreamReply int string

text \<open>
  \<open>now_check\<close> is the clock reading of the validity check, \<open>now_set\<close> the later one
  taken when the expiry is computed.
\<close>

record world =
  now_check :: int
  auth :: auth_outcome
  now_set :: int
  upstream :: upstream_outcome

datatype log_line =
    Using_cached_token
  | Fetching_new_token
  | Token_refreshed int
  | Failed_to_get_token exn
  | Proxying_query
  | Proxy_error exn

text \<open>
  \<open>AuthPost\<close> is the client-credentials POST to the token endpoint;
  \<open>UpstreamPost token b\<close> the POST to the GraphQL endpoint with the header
  \<open>Authorization: Bearer {token}\<close> and the request body \<open>b\<close>: \<open>Some q\<close> is the JSON
  encoding of \<open>q\<close>, \<open>None\<close> a request without a body.
\<close>

datatype event = Log log_line | AuthPost | UpstreamPost json "json option"

subsection \<open>get_wiz_token\<close>

text \<open>The guard of the cache check: both fields truthy and the clock before the expiry.\<close>

definition cache_hit :: "token_cache \<Rightarrow> int \<Rightarrow> bool" where
  "cache_hit c t =
     (truthy (access_token c) \<and> (case expires_at c of None \<Rightarrow> False | Some e \<Rightarrow> t < e))"

definition raise_for_status :: "int \<Rightarrow> exn + unit" where
  "raise_for_status s = (if 400 \<le> s \<and> s < 600 then Inl (HTTPError s) else Inr ())"

fun response_json :: "reply_body \<Rightarrow> exn + json" where
  "response_json NotJson = Inl JSONDecodeError"
| "response_json (JsonBody j) = Inr j"

text \<open>
  The body of the \<open>try\<close> block. The access token is written to the cache before the
  expiry is computed, so an exception from the expiry computation leaves the new token
  beside the old expiry.
\<close>

definition fetch_token :: "token_cache \<Rightarrow> world \<Rightarrow> (exn + json) \<times> token_cache \<times> event list" where
  "fetch_token c w =
     (case auth w of
        AuthFailure m \<Rightarrow> (Inl (RequestException m), c, [AuthPost])
      | AuthReply s b \<Rightarrow>
          (case raise_for_status s of
             Inl e \<Rightarrow> (Inl e, c, [AuthPost])
           | Inr u \<Rightarrow>
               (case response_json b of
                  Inl e \<Rightarrow> (Inl e, c, [AuthPost])
                | Inr token_data \<Rightarrow>
                    (case py_getitem token_data ''access_token'' of
                       Inl e \<Rightarrow> (Inl e, c, [AuthPost])
                     | Inr tok \<Rightarrow>
                         (let c1 = c\<lparr>access_token := tok\<rparr> in
                          case py_get token_data ''expires_in'' (JInt 3600) of
                            Inl e \<Rightarrow> (Inl e, c1, [AuthPost])
                          | Inr v \<Rightarrow>
                              (case py_sub v 60 of
                                 Inl e \<Rightarrow> (Inl e, c1, [AuthPost])
                               | Inr expires_in \<Rightarrow>
                                   (case timedelta_seconds expires_in of
                                      Inl e \<Rightarrow> (Inl e, c1, [AuthPost])
                                    | Inr d \<Rightarrow>
                                        (case datetime_add (now_set w) d of
                                           Inl e \<Rightarrow> (Inl e, c1, [AuthPost])
                                         | Inr t \<Rightarrow>
                                             (let c2 = c1\<lparr>expires_at := Some t\<rparr>
                                              in (Inr (access_token c2), c2,
                                                  [AuthPost, Log (Token_refreshed t)]))))))))))"

text \<open>
  The whole function: the cache check, then the \<open>try\<close> block, whose \<open>except\<close> clause
  logs a \<open>RequestException\<close> and raises it again; any other exception passes through.
\<close>

definition get_wiz_token :: "token_cache \<Rightarrow> world \<Rightarrow> (exn + json) \<times> token_cache \<times> event list" where
  "get_wiz_token c w =
     (if cache_hit c (now_check w) then (Inr (access_token c), c, [Log Using_cached_token])
      else
        (case fetch_token c w of
           (Inl e, c', tr) \<Rightarrow>
             (Inl e, c',
              Log Fetching_new_token # tr @
                (if is_RequestException e then [Log (Failed_to_get_token e)] else []))
         | (Inr tok, c', tr) \<Rightarrow> (Inr tok, c', Log Fetching_new_token # tr)))"

subsection \<open>proxy_graphql\<close>

text \<open>
  The inbound request as the handler reads it: \<open>request.method\<close>, and what
  \<open>request.get_json()\<close> gives for its body, the decoded value or the exception raised
  for a body that does not decode.
\<close>

record request =
  request_method :: string
  get_json :: "exn + json"

text \<open>
  A response body: none, the bytes of an upstream reply, or
  \<open>jsonify({'error': str(e)})\<close> for an exception \<open>e\<close>.
\<close>

datatype body = Empty | Content string | ErrorJson exn

record response =
  status :: int
  headers :: "(string \<times> string) list"
  body :: body

definition preflight_response :: response where
  "preflight_response =
     \<lparr>status = 200,
      headers = [(''Access-Control-Allow-Origin'', ''*''),
                 (''Access-Control-Allow-Methods'', ''POST, OPTIONS''),
                 (''Access-Control-Allow-Headers'', ''Content-Type, Authorization'')],
      body = Empty\<rparr>"

definition relay_response :: "int \<Rightarrow> string \<Rightarrow> response" where
  "relay_response s b =
     \<lparr>status = s,
      headers = [(''Content-Type'', ''application/json''),
                 (''Access-Control-Allow-Origin'', ''*'')],
      body = Content b\<rparr>"

text \<open>The \<open>except Exception\<close> branch: \<open>jsonify\<close> sets the content type and nothing else.\<close>

definition error_response :: "exn \<Rightarrow> response" where
  "error_response e =
     \<lparr>status = 500, headers = [(''Content-Type'', ''application/json'')], body = ErrorJson e\<rparr>"

text \<open>
  What \<open>requests.post(..., json=q)\<close> sends: the encoding of \<open>q\<close>, unless \<open>q\<close> is \<open>None\<close>
  (the library encodes its \<open>json\<close> argument only if it \<open>is not None\<close>), in which case
  the request has no body.
\<close>

fun prepare_body :: "json \<Rightarrow> json option" where
  "prepare_body JNull = None"
| "prepare_body q = Some q"

definition proxy_graphql :: "token_cache \<Rightarrow> world \<Rightarrow> request \<Rightarrow> response \<times> token_cache \<times> event list" where
  "proxy_graphql c w req =
     (if request_method req = ''OPTIONS'' then (preflight_response, c, [])
      else
        (case get_wiz_token c w of
           (Inl e, c', tr) \<Rightarrow> (error_response e, c', tr @ [Log (Proxy_error e)])
         | (Inr token, c', tr) \<Rightarrow>
             (case get_json req of
                Inl e \<Rightarrow> (error_response e, c', tr @ [Log (Proxy_error e)])
              | Inr graphql_query \<Rightarrow>
                  (case upstream w of
                     UpstreamFailure m \<Rightarrow>
                       (error_response (RequestException m), c',
                        tr @ [Log Proxying_query, UpstreamPost token (prepare_body graphql_query),
                              Log (Proxy_error (RequestException m))])
                   | UpstreamReply s b \<Rightarrow>
                       (relay_response s b, c',
                        tr @ [Log Proxying_query, UpstreamPost token (prepare_body graphql_query)])))))"

text \<open>The introspection route calls the same handler.\<close>

definition introspection :: "token_cache \<Rightarrow> world \<Rightarrow> request \<Rightarrow> response \<times> token_cache \<times> event list" where
  "introspection c w req = proxy_graphql c w req"

text \<open>Whether a trace holds a call to the upstream API, or to the identity provider.\<close>

fun is_UpstreamPost :: "event \<Rightarrow> bool" where
  "is_UpstreamPost (UpstreamPost t b) = True"
| "is_UpstreamPost e = False"

definition forwarded :: "event list \<Rightarrow> bool" where
  "forwarded tr = list_ex is_UpstreamPost tr"

definition acquired :: "event list \<Rightarrow> bool" where
  "acquired tr = (AuthPost \<in> set tr)"

section \<open>Properties\<close>

subsection \<open>The two branches of get_wiz_token\<close>

lemma get_wiz_token_hit:
  "cache_hit c (now_check w) \<Longrightarrow>
   get_wiz_token c w = (Inr (access_token c), c, [Log Using_cached_token])"
  by (simp add: get_wiz_token_def)

lemma get_wiz_token_miss:
  "\<not> cache_hit c (now_check w) \<Longrightarrow>
   get_wiz_token c w =
     (case fetch_token c w of
        (Inl e, c', tr) \<Rightarrow>
          (Inl e, c',
           Log Fetching_new_token # tr @
             (if is_RequestException e then [Log (Failed_to_get_token e)] else []))
      | (Inr tok, c', tr) \<Rightarrow> (Inr tok, c', Log Fetching_new_token # tr))"
  by (simp add: get_wiz_token_def)

lemma get_wiz_token_success_fetch:
  assumes "\<not> cache_hit c (now_check w)" and "get_wiz_token c w = (Inr v, c', tr)"
  shows "\<exists>tr'. fetch_token c w = (Inr v, c', tr') \<and> tr = Log Fetching_new_token # tr'"
  using assms by (auto simp: get_wiz_token_miss split: prod.splits sum.splits)

text \<open>
  The \<open>try\<close> block contacts the identity provider once and nothing else; its result and
  its events do not depend on what the cache held.
\<close>

lemma fetch_token_events:
  "snd (snd (fetch_token c w)) = [AuthPost] \<or>
   (\<exists>t. snd (snd (fetch_token c w)) = [AuthPost, Log (Token_refreshed t)])"
  by (simp add: fetch_token_def Let_def split: auth_outcome.splits sum.splits)

lemma fetch_token_result_indep:
  "fst (fetch_token c w) = fst (fetch_token c0 w) \<and>
   snd (snd (fetch_token c w)) = snd (snd (fetch_token c0 w))"
  by (simp add: fetch_token_def Let_def split: auth_outcome.splits sum.splits)

lemma fetch_token_not_forwarded: "\<not> forwarded (snd (snd (fetch_token c w)))"
  using fetch_token_events [of c w] by (auto simp: forwarded_def)

lemma get_wiz_token_not_forwarded: "\<not> forwarded (snd (snd (get_wiz_token c w)))"
  using fetch_token_not_forwarded [of c w]
  by (auto simp: get_wiz_token_def forwarded_def split: prod.splits sum.splits)

lemma get_wiz_token_trace_not_forwarded:
  "get_wiz_token c w = (r, c', tr) \<Longrightarrow> \<not> forwarded tr"
  using get_wiz_token_not_forwarded [of c w] by simp

lemma forwarded_append: "forwarded (xs @ ys) \<longleftrightarrow> forwarded xs \<or> forwarded ys"
  by (simp add: forwarded_def)

text \<open>
  A successful refresh comes from a reply whose body is a JSON object, and writes both
  cache fields: the expiry is the second clock reading plus the lifetime less 60 seconds.
\<close>

lemma fetch_token_success_reply:
  assumes "fetch_token c w = (Inr v, c', tr)"
  shows "\<exists>s kvs. auth w = AuthReply s (JsonBody (JObject kvs))"
proof (cases "auth w")
  case (AuthFailure m)
  with assms show ?thesis by (simp add: fetch_token_def)
next
  case (AuthReply s b)
  show ?thesis
  proof (cases b)
    case NotJson
    with assms AuthReply show ?thesis
      by (simp add: fetch_token_def split: sum.splits)
  next
    case (JsonBody j)
    with assms AuthReply show ?thesis
      by (cases j) (simp_all add: fetch_token_def split: sum.splits)
  qed
qed

lemma fetch_token_success_int:
  assumes "auth w = AuthReply s (JsonBody (JObject kvs))"
    and "map_of kvs ''expires_in'' = Some (JInt L)"
    and "fetch_token c w = (Inr v, c', tr)"
  shows "map_of kvs ''access_token'' = Some v \<and>
         c' = \<lparr>access_token = v, expires_at = Some (now_set w + (L - 60) * us_per_second)\<rparr> \<and>
         tr = [AuthPost, Log (Token_refreshed (now_set w + (L - 60) * us_per_second))]"
  using assms
  by (auto simp: fetch_token_def Let_def timedelta_seconds_def datetime_add_def us_per_second_def
      split: sum.splits option.splits if_splits)

lemma fetch_token_success_default:
  assumes "auth w = AuthReply s (JsonBody (JObject kvs))"
    and "map_of kvs ''expires_in'' = None"
    and "fetch_token c w = (Inr v, c', tr)"
  shows "map_of kvs ''access_token'' = Some v \<and>
         c' = \<lparr>access_token = v, expires_at = Some (now_set w + (3600 - 60) * us_per_second)\<rparr> \<and>
         tr = [AuthPost, Log (Token_refreshed (now_set w + (3600 - 60) * us_per_second))]"
  using assms
  by (auto simp: fetch_token_def Let_def timedelta_seconds_def datetime_add_def us_per_second_def
      split: sum.splits option.splits if_splits)

text \<open>
  Conversely, a reply with an accepted status, a token and an integer lifetime within
  the ranges of \<open>timedelta\<close> and \<open>datetime\<close> does refresh the cache.
\<close>

lemma get_wiz_token_refreshes:
  assumes "\<not> cache_hit c (now_check w)"
    and "auth w = AuthReply s (JsonBody (JObject kvs))"
    and "\<not> (400 \<le> s \<and> s < 600)"
    and "map_of kvs ''access_token'' = Some tok"
    and "map_of kvs ''expires_in'' = Some (JInt L)"
    and "- 999999999 \<le> (L - 60) div 86400" and "(L - 60) div 86400 \<le> 999999999"
    and "0 \<le> now_set w + (L - 60) * us_per_second"
    and "now_set w + (L - 60) * us_per_second \<le> datetime_max"
  shows "get_wiz_token c w =
           (Inr tok,
            \<lparr>access_token = tok, expires_at = Some (now_set w + (L - 60) * us_per_second)\<rparr>,
            [Log Fetching_new_token, AuthPost,
             Log (Token_refreshed (now_set w + (L - 60) * us_per_second))])"
proof -
  from assms(3) have ok: "raise_for_status s = Inr ()"
    by (auto simp: raise_for_status_def)
  from assms(6,7) have td: "timedelta_seconds (L - 60) = Inr ((L - 60) * us_per_second)"
    by (simp add: timedelta_seconds_def)
  from assms(8,9)
  have da: "datetime_add (now_set w) ((L - 60) * us_per_second)
              = Inr (now_set w + (L - 60) * us_per_second)"
    by (simp add: datetime_add_def)
  have "fetch_token c w =
          (Inr tok,
           \<lparr>access_token = tok, expires_at = Some (now_set w + (L - 60) * us_per_second)\<rparr>,
           [AuthPost, Log (Token_refreshed (now_set w + (L - 60) * us_per_second))])"
    using assms(2,4,5) ok td da by (simp add: fetch_token_def)
  then show ?thesis
    by (simp add: get_wiz_token_miss [OF assms(1)])
qed

text \<open>
  An exception raised after the token was written leaves the new token in the cache
  beside the old expiry: here the lifetime is a string, and the subtraction fails.
\<close>

lemma expiry_failure_keeps_new_token:
  "get_wiz_token \<lparr>access_token = JString ''old'', expires_at = Some 63800000000000000\<rparr>
     \<lparr>now_check = 63900000000000000,
      auth = AuthReply 200 (JsonBody (JObject [(''access_token'', JString ''abc''), (''expires_in'', JString ''3600'')])),
      now_set = 63900000000250000, upstream = UpstreamFailure ''unused''\<rparr>
   = (Inl TypeError,
      \<lparr>access_token = JString ''abc'', expires_at = Some 63800000000000000\<rparr>,
      [Log Fetching_new_token, AuthPost])"
  by (simp add: get_wiz_token_def cache_hit_def fetch_token_def raise_for_status_def)

lemma no_upstream_posts: "\<not> forwarded tr \<Longrightarrow> filter is_UpstreamPost tr = []"
  by (simp add: forwarded_def list_ex_iff filter_empty_conv)

lemma prepare_body_eq: "prepare_body q = (if q = JNull then None else Some q)"
  by (cases q) simp_all

text \<open>The handler on any method but OPTIONS.\<close>

lemma proxy_graphql_post:
  "request_method req \<noteq> ''OPTIONS'' \<Longrightarrow>
   proxy_graphql c w req =
     (case get_wiz_token c w of
        (Inl e, c', tr) \<Rightarrow> (error_response e, c', tr @ [Log (Proxy_error e)])
      | (Inr token, c', tr) \<Rightarrow>
          (case get_json req of
             Inl e \<Rightarrow> (error_response e, c', tr @ [Log (Proxy_error e)])
           | Inr graphql_query \<Rightarrow>
               (case upstream w of
                  UpstreamFailure m \<Rightarrow>
                    (error_response (RequestException m), c',
                     tr @ [Log Proxying_query, UpstreamPost token (prepare_body graphql_query),
                           Log (Proxy_error (RequestException m))])
                | UpstreamReply s b \<Rightarrow>
                    (relay_response s b, c',
                     tr @ [Log Proxying_query, UpstreamPost token (prepare_body graphql_query)]))))"
  by (simp add: proxy_graphql_def)

subsection \<open>Cache validity\<close>

text \<open>
  Claim C1, as amended. Let a refresh have stored the token \<open>tok\<close>, reported with
  lifetime \<open>L\<close> seconds, at clock reading \<open>now_set w0\<close>, and let \<open>tok\<close> be a value Python
  treats as true (for a string: not empty). Then a call whose clock reading is strictly
  before \<open>now_set w0 + (L - 60)\<close> seconds returns \<open>tok\<close> from the cache, leaves the cache
  as it is and contacts nobody. A call whose clock reading is at or after that instant
  contacts the identity provider, and its result and its events are those of the same
  call on the empty cache. Times are in microseconds.
\<close>

theorem cache_validity:
  assumes "\<not> cache_hit c0 (now_check w0)"
    and "auth w0 = AuthReply s (JsonBody (JObject kvs))"
    and "map_of kvs ''expires_in'' = Some (JInt L)"
    and "get_wiz_token c0 w0 = (Inr tok, c1, tr0)"
    and "truthy tok"
  shows "(now_check w < now_set w0 + (L - 60) * us_per_second \<longrightarrow>
            get_wiz_token c1 w = (Inr tok, c1, [Log Using_cached_token])) \<and>
         (now_set w0 + (L - 60) * us_per_second \<le> now_check w \<longrightarrow>
            acquired (snd (snd (get_wiz_token c1 w))) \<and>
            fst (get_wiz_token c1 w) = fst (get_wiz_token initial_token_cache w) \<and>
            snd (snd (get_wiz_token c1 w)) = snd (snd (get_wiz_token initial_token_cache w)))"
proof -
  from assms(1,4) obtain tr' where f: "fetch_token c0 w0 = (Inr tok, c1, tr')"
    using get_wiz_token_success_fetch by blast
  from fetch_token_success_int [OF assms(2) assms(3) f]
  have c1: "c1 = \<lparr>access_token = tok, expires_at = Some (now_set w0 + (L - 60) * us_per_second)\<rparr>"
    by (simp add: us_per_second_def)
  have hit: "cache_hit c1 t \<longleftrightarrow> t < now_set w0 + (L - 60) * us_per_second" for t
    using assms(5) by (simp add: c1 cache_hit_def)
  have init: "\<not> cache_hit initial_token_cache t" for t
    by (simp add: cache_hit_def initial_token_cache_def)
  show ?thesis
  proof (intro conjI impI)
    assume "now_check w < now_set w0 + (L - 60) * us_per_second"
    then have "cache_hit c1 (now_check w)" by (simp add: hit)
    then show "get_wiz_token c1 w = (Inr tok, c1, [Log Using_cached_token])"
      by (simp add: get_wiz_token_hit c1)
  next
    assume late: "now_set w0 + (L - 60) * us_per_second \<le> now_check w"
    then have miss: "\<not> cache_hit c1 (now_check w)" by (simp add: hit)
    from fetch_token_events [of c1 w]
    show "acquired (snd (snd (get_wiz_token c1 w)))"
      by (auto simp: get_wiz_token_miss [OF miss] acquired_def split: prod.splits sum.splits)
    from fetch_token_result_indep [of c1 w initial_token_cache]
    show "fst (get_wiz_token c1 w) = fst (get_wiz_token initial_token_cache w)"
      by (auto simp: get_wiz_token_miss [OF miss] get_wiz_token_miss [OF init] split: prod.splits sum.splits)
    from fetch_token_result_indep [of c1 w initial_token_cache]
    show "snd (snd (get_wiz_token c1 w)) = snd (snd (get_wiz_token initial_token_cache w))"
      by (auto simp: get_wiz_token_miss [OF miss] get_wiz_token_miss [OF init] split: prod.splits sum.splits)
  qed
qed

text \<open>
  The scenario of the specification: the provider answers \<open>abc\<close> with lifetime 3600;
  3000 seconds later the cache answers, 3600 seconds later it does not.
\<close>

theorem cache_validity_witness:
  "get_wiz_token initial_token_cache
     \<lparr>now_check = 63900000000000000,
      auth = AuthReply 200 (JsonBody (JObject [(''access_token'', JString ''abc''), (''expires_in'', JInt 3600)])),
      now_set = 63900000000000000, upstream = UpstreamFailure ''unused''\<rparr>
   = (Inr (JString ''abc''),
      \<lparr>access_token = JString ''abc'', expires_at = Some 63900003540000000\<rparr>,
      [Log Fetching_new_token, AuthPost, Log (Token_refreshed 63900003540000000)]) \<and>
   get_wiz_token \<lparr>access_token = JString ''abc'', expires_at = Some 63900003540000000\<rparr>
     \<lparr>now_check = 63900003000000000, auth = AuthFailure ''timeout'',
      now_set = 63900003000000000, upstream = UpstreamFailure ''unused''\<rparr>
   = (Inr (JString ''abc''),
      \<lparr>access_token = JString ''abc'', expires_at = Some 63900003540000000\<rparr>,
      [Log Using_cached_token]) \<and>
   acquired (snd (snd (get_wiz_token \<lparr>access_token = JString ''abc'', expires_at = Some 63900003540000000\<rparr>
     \<lparr>now_check = 63900003600000000, auth = AuthFailure ''timeout'',
      now_set = 63900003600000000, upstream = UpstreamFailure ''unused''\<rparr>)))"
proof -
  let ?w0 = "\<lparr>now_check = 63900000000000000,
      auth = AuthReply 200 (JsonBody (JObject [(''access_token'', JString ''abc''), (''expires_in'', JInt 3600)])),
      now_set = 63900000000000000, upstream = UpstreamFailure ''unused''\<rparr>"
  let ?c1 = "\<lparr>access_token = JString ''abc'', expires_at = Some 63900003540000000\<rparr>"
  have h1: "\<not> cache_hit initial_token_cache (now_check ?w0)"
    by (simp add: cache_hit_def initial_token_cache_def)
  have h2: "auth ?w0 = AuthReply 200 (JsonBody (JObject [(''access_token'', JString ''abc''), (''expires_in'', JInt 3600)]))"
    by simp
  have h3: "map_of [(''access_token'', JString ''abc''), (''expires_in'', JInt 3600)] ''expires_in'' = Some (JInt 3600)"
    by simp
  have h4: "get_wiz_token initial_token_cache ?w0
      = (Inr (JString ''abc''), ?c1, [Log Fetching_new_token, AuthPost, Log (Token_refreshed 63900003540000000)])"
    by (simp add: get_wiz_token_def cache_hit_def initial_token_cache_def fetch_token_def
        raise_for_status_def timedelta_seconds_def datetime_add_def datetime_max_def us_per_second_def)
  have h5: "truthy (JString ''abc'')" by simp
  note v = cache_validity [OF h1 h2 h3 h4 h5]
  let ?wa = "\<lparr>now_check = 63900003000000000, auth = AuthFailure ''timeout'',
      now_set = 63900003000000000, upstream = UpstreamFailure ''unused''\<rparr>"
  let ?wb = "\<lparr>now_check = 63900003600000000, auth = AuthFailure ''timeout'',
      now_set = 63900003600000000, upstream = UpstreamFailure ''unused''\<rparr>"
  have early: "now_check ?wa < now_set ?w0 + (3600 - 60) * us_per_second"
    by (simp add: us_per_second_def)
  have late: "now_set ?w0 + (3600 - 60) * us_per_second \<le> now_check ?wb"
    by (simp add: us_per_second_def)
  have a: "get_wiz_token ?c1 ?wa = (Inr (JString ''abc''), ?c1, [Log Using_cached_token])"
    using v [of ?wa, THEN conjunct1, THEN mp, OF early] .
  have b: "acquired (snd (snd (get_wiz_token ?c1 ?wb)))"
    using v [of ?wb, THEN conjunct2, THEN mp, OF late, THEN conjunct1] .
  from h4 a b show ?thesis by blast
qed

text \<open>
  Claim C1 as stated ranges over every token. The cache check tests the stored token
  for truth, so an empty string stored with lifetime 3600 is never served from the cache:
  3000 seconds after it was stored, well before its expiry, the call goes to the identity
  provider again and here fails with its error.
\<close>

theorem cache_validity_counterexample:
  "get_wiz_token initial_token_cache
     \<lparr>now_check = 63900000000000000,
      auth = AuthReply 200 (JsonBody (JObject [(''access_token'', JString ''''), (''expires_in'', JInt 3600)])),
      now_set = 63900000000000000, upstream = UpstreamFailure ''unused''\<rparr>
   = (Inr (JString ''''),
      \<lparr>access_token = JString '''', expires_at = Some 63900003540000000\<rparr>,
      [Log Fetching_new_token, AuthPost, Log (Token_refreshed 63900003540000000)]) \<and>
   (63900003000000000 :: int) < 63900000000000000 + (3600 - 60) * us_per_second \<and>
   get_wiz_token \<lparr>access_token = JString '''', expires_at = Some 63900003540000000\<rparr>
     \<lparr>now_check = 63900003000000000, auth = AuthFailure ''timeout'',
      now_set = 63900003000000000, upstream = UpstreamFailure ''unused''\<rparr>
   = (Inl (RequestException ''timeout''),
      \<lparr>access_token = JString '''', expires_at = Some 63900003540000000\<rparr>,
      [Log Fetching_new_token, AuthPost, Log (Failed_to_get_token (RequestException ''timeout''))])"
  by (simp add: get_wiz_token_def cache_hit_def initial_token_cache_def fetch_token_def
      raise_for_status_def timedelta_seconds_def datetime_add_def datetime_max_def us_per_second_def)

subsection \<open>Expiry computation\<close>

text \<open>
  Claim C2. When a call that misses the cache returns a token, the identity provider's
  reply was a JSON object holding that token under \<open>access_token\<close>, the token is what
  the cache now holds, and the cached expiry is the clock reading taken after the reply
  plus the lifetime minus 60 seconds: the reported lifetime \<open>L\<close> when \<open>expires_in\<close> is
  an integer \<open>L\<close>, and 3600 when the reply has no \<open>expires_in\<close>.
\<close>

theorem expiry_computation:
  assumes "\<not> cache_hit c (now_check w)"
    and "get_wiz_token c w = (Inr v, c', tr)"
  shows "\<exists>s kvs. auth w = AuthReply s (JsonBody (JObject kvs)) \<and>
           map_of kvs ''access_token'' = Some v \<and> access_token c' = v \<and>
           (\<forall>L. map_of kvs ''expires_in'' = Some (JInt L) \<longrightarrow>
                expires_at c' = Some (now_set w + (L - 60) * us_per_second)) \<and>
           (map_of kvs ''expires_in'' = None \<longrightarrow>
                expires_at c' = Some (now_set w + (3600 - 60) * us_per_second))"
proof -
  from assms obtain tr' where f: "fetch_token c w = (Inr v, c', tr')"
    using get_wiz_token_success_fetch by blast
  then obtain s kvs where a: "auth w = AuthReply s (JsonBody (JObject kvs))"
    using fetch_token_success_reply by blast
  have tok: "map_of kvs ''access_token'' = Some v \<and> access_token c' = v"
    using f a by (auto simp: fetch_token_def Let_def split: sum.splits option.splits)
  have reported: "expires_at c' = Some (now_set w + (L - 60) * us_per_second)"
    if "map_of kvs ''expires_in'' = Some (JInt L)" for L
    using fetch_token_success_int [OF a that f] by (simp add: us_per_second_def)
  have default: "expires_at c' = Some (now_set w + (3600 - 60) * us_per_second)"
    if "map_of kvs ''expires_in'' = None"
    using fetch_token_success_default [OF a that f] by (simp add: us_per_second_def)
  show ?thesis
  proof (intro exI conjI allI impI)
    show "auth w = AuthReply s (JsonBody (JObject kvs))" by (rule a)
    show "map_of kvs ''access_token'' = Some v" using tok by simp
    show "access_token c' = v" using tok by simp
    show "expires_at c' = Some (now_set w + (L - 60) * us_per_second)"
      if "map_of kvs ''expires_in'' = Some (JInt L)" for L
      using that by (rule reported)
    show "expires_at c' = Some (now_set w + (3600 - 60) * us_per_second)"
      if "map_of kvs ''expires_in'' = None"
      using that by (rule default)
  qed
qed

theorem expiry_computation_witness:
  "get_wiz_token initial_token_cache
     \<lparr>now_check = 63900000000000000,
      auth = AuthReply 200 (JsonBody (JObject [(''access_token'', JString ''abc''), (''expires_in'', JInt 7200)])),
      now_set = 63900000000250000, upstream = UpstreamFailure ''unused''\<rparr>
   = (Inr (JString ''abc''),
      \<lparr>access_token = JString ''abc'', expires_at = Some 63900007140250000\<rparr>,
      [Log Fetching_new_token, AuthPost, Log (Token_refreshed 63900007140250000)]) \<and>
   Some (63900007140250000 :: int) = Some (63900000000250000 + (7200 - 60) * us_per_second) \<and>
   get_wiz_token initial_token_cache
     \<lparr>now_check = 63900000000000000,
      auth = AuthReply 200 (JsonBody (JObject [(''access_token'', JString ''abc'')])),
      now_set = 63900000000250000, upstream = UpstreamFailure ''unused''\<rparr>
   = (Inr (JString ''abc''),
      \<lparr>access_token = JString ''abc'', expires_at = Some 63900003540250000\<rparr>,
      [Log Fetching_new_token, AuthPost, Log (Token_refreshed 63900003540250000)]) \<and>
   Some (63900003540250000 :: int) = Some (63900000000250000 + (3600 - 60) * us_per_second)"
proof -
  let ?kr = "[(''access_token'', JString ''abc''), (''expires_in'', JInt 7200)]"
  let ?kd = "[(''access_token'', JString ''abc'')]"
  let ?wr = "\<lparr>now_check = 63900000000000000, auth = AuthReply 200 (JsonBody (JObject ?kr)),
      now_set = 63900000000250000, upstream = UpstreamFailure ''unused''\<rparr>"
  let ?wd = "\<lparr>now_check = 63900000000000000, auth = AuthReply 200 (JsonBody (JObject ?kd)),
      now_set = 63900000000250000, upstream = UpstreamFailure ''unused''\<rparr>"
  let ?cr = "\<lparr>access_token = JString ''abc'', expires_at = Some 63900007140250000\<rparr>"
  let ?cd = "\<lparr>access_token = JString ''abc'', expires_at = Some 63900003540250000\<rparr>"
  have miss: "\<not> cache_hit initial_token_cache 63900000000000000"
    by (simp add: cache_hit_def initial_token_cache_def)
  have mr: "\<not> cache_hit initial_token_cache (now_check ?wr)" using miss by simp
  have md: "\<not> cache_hit initial_token_cache (now_check ?wd)" using miss by simp
  have r: "get_wiz_token initial_token_cache ?wr
      = (Inr (JString ''abc''), ?cr, [Log Fetching_new_token, AuthPost, Log (Token_refreshed 63900007140250000)])"
    by (simp add: get_wiz_token_def cache_hit_def initial_token_cache_def fetch_token_def
        raise_for_status_def timedelta_seconds_def datetime_add_def datetime_max_def us_per_second_def)
  have d: "get_wiz_token initial_token_cache ?wd
      = (Inr (JString ''abc''), ?cd, [Log Fetching_new_token, AuthPost, Log (Token_refreshed 63900003540250000)])"
    by (simp add: get_wiz_token_def cache_hit_def initial_token_cache_def fetch_token_def
        raise_for_status_def timedelta_seconds_def datetime_add_def datetime_max_def us_per_second_def)
  from expiry_computation [OF mr r]
  have er: "expires_at ?cr = Some (now_set ?wr + (7200 - 60) * us_per_second)"
    by auto
  from expiry_computation [OF md d]
  have ed: "expires_at ?cd = Some (now_set ?wd + (3600 - 60) * us_per_second)"
    by auto
  from r d er ed show ?thesis by simp
qed

subsection \<open>Relaying the upstream response\<close>

text \<open>
  Claim C3. Whenever the handler has called the upstream API and the upstream answered
  with status \<open>S\<close> and body \<open>B\<close>, whatever the status and whatever the body hold, the
  caller's response has status \<open>S\<close> and body \<open>B\<close>, and carries
  \<open>Access-Control-Allow-Origin: *\<close>.
\<close>

theorem pass_through_fidelity:
  assumes "proxy_graphql c w req = (resp, c', tr)"
    and "forwarded tr"
    and "upstream w = UpstreamReply S B"
  shows "status resp = S \<and> body resp = Content B \<and>
         map_of (headers resp) ''Access-Control-Allow-Origin'' = Some ''*''"
proof (cases "request_method req = ''OPTIONS''")
  case True
  with assms(1,2) show ?thesis by (simp add: proxy_graphql_def forwarded_def)
next
  case False
  obtain r c1 tr1 where g: "get_wiz_token c w = (r, c1, tr1)"
    by (cases "get_wiz_token c w") auto
  then have nf: "\<not> forwarded tr1" by (rule get_wiz_token_trace_not_forwarded)
  from assms g nf show ?thesis
    by (auto simp: proxy_graphql_post [OF False] forwarded_append forwarded_def relay_response_def
        split: sum.splits)
qed

theorem pass_through_fidelity_witness:
  "proxy_graphql \<lparr>access_token = JString ''abc'', expires_at = Some 63900003540000000\<rparr>
     \<lparr>now_check = 63900000000000000, auth = AuthFailure ''unused'',
      now_set = 63900000000250000, upstream = UpstreamReply 400 ''{errors: [bad query]}''\<rparr>
     \<lparr>request_method = ''POST'', get_json = Inr (JObject [(''query'', JString ''{ __typename }'')])\<rparr>
   = (\<lparr>status = 400,
       headers = [(''Content-Type'', ''application/json''), (''Access-Control-Allow-Origin'', ''*'')],
       body = Content ''{errors: [bad query]}''\<rparr>,
      \<lparr>access_token = JString ''abc'', expires_at = Some 63900003540000000\<rparr>,
      [Log Using_cached_token, Log Proxying_query,
       UpstreamPost (JString ''abc'') (Some (JObject [(''query'', JString ''{ __typename }'')]))]) \<and>
   forwarded [Log Using_cached_token, Log Proxying_query,
       UpstreamPost (JString ''abc'') (Some (JObject [(''query'', JString ''{ __typename }'')]))] \<and>
   map_of [(''Content-Type'', ''application/json''), (''Access-Control-Allow-Origin'', ''*'')]
     ''Access-Control-Allow-Origin'' = Some ''*''"
proof -
  let ?c = "\<lparr>access_token = JString ''abc'', expires_at = Some 63900003540000000\<rparr>"
  let ?w = "\<lparr>now_check = 63900000000000000, auth = AuthFailure ''unused'',
      now_set = 63900000000250000, upstream = UpstreamReply 400 ''{errors: [bad query]}''\<rparr>"
  let ?req = "\<lparr>request_method = ''POST'', get_json = Inr (JObject [(''query'', JString ''{ __typename }'')])\<rparr>"
  let ?tr = "[Log Using_cached_token, Log Proxying_query,
       UpstreamPost (JString ''abc'') (Some (JObject [(''query'', JString ''{ __typename }'')]))]"
  let ?resp = "\<lparr>status = 400,
       headers = [(''Content-Type'', ''application/json''), (''Access-Control-Allow-Origin'', ''*'')],
       body = Content ''{errors: [bad query]}''\<rparr>"
  have h1: "proxy_graphql ?c ?w ?req = (?resp, ?c, ?tr)"
    by (simp add: proxy_graphql_def get_wiz_token_def cache_hit_def relay_response_def)
  have h2: "forwarded ?tr" by (simp add: forwarded_def)
  have h3: "upstream ?w = UpstreamReply 400 ''{errors: [bad query]}''" by simp
  from pass_through_fidelity [OF h1 h2 h3] h1 h2 show ?thesis by simp
qed

subsection \<open>Failed token acquisition\<close>

text \<open>
  Whenever \<open>get_wiz_token\<close> raises, with whatever exception \<open>e\<close>, the handler of a
  request that is not a preflight answers with status 500 and the error body made from
  \<open>e\<close>, and no call to the upstream API has been made.
\<close>

lemma no_forward_when_token_raises:
  assumes "request_method req \<noteq> ''OPTIONS''"
    and "get_wiz_token c w = (Inl e, c1, tr1)"
    and "proxy_graphql c w req = (resp, c', tr)"
  shows "status resp = 500 \<and> body resp = ErrorJson e \<and> \<not> forwarded tr"
proof -
  from assms(2) have "\<not> forwarded tr1" by (rule get_wiz_token_trace_not_forwarded)
  with assms show ?thesis
    by (auto simp: proxy_graphql_post forwarded_append forwarded_def error_response_def)
qed

text \<open>
  Claim C4 asks for a 500 response and no forwarding on every failing interaction with
  the identity provider, and the docstring of \<open>get_wiz_token\<close> promises a valid token.
  The function raises only where the lemma above applies. A reply with status 200 whose
  \<open>access_token\<close> is \<open>null\<close> yields no token, yet nothing checks the value: it is cached
  and returned, and the handler posts the caller's query upstream under the header
  \<open>Authorization: Bearer None\<close> and relays the upstream's answer instead of a 500.
\<close>

theorem null_token_forwarded:
  "proxy_graphql initial_token_cache
     \<lparr>now_check = 63900000000000000,
      auth = AuthReply 200 (JsonBody (JObject [(''access_token'', JNull), (''expires_in'', JInt 3600)])),
      now_set = 63900000000250000, upstream = UpstreamReply 401 ''unauthorized''\<rparr>
     \<lparr>request_method = ''POST'', get_json = Inr (JObject [(''query'', JString ''{ __typename }'')])\<rparr>
   = (\<lparr>status = 401,
       headers = [(''Content-Type'', ''application/json''), (''Access-Control-Allow-Origin'', ''*'')],
       body = Content ''unauthorized''\<rparr>,
      \<lparr>access_token = JNull, expires_at = Some 63900003540250000\<rparr>,
      [Log Fetching_new_token, AuthPost, Log (Token_refreshed 63900003540250000),
       Log Proxying_query,
       UpstreamPost JNull (Some (JObject [(''query'', JString ''{ __typename }'')]))]) \<and>
   forwarded [Log Fetching_new_token, AuthPost, Log (Token_refreshed 63900003540250000),
       Log Proxying_query,
       UpstreamPost JNull (Some (JObject [(''query'', JString ''{ __typename }'')]))]"
  by (simp add: proxy_graphql_def get_wiz_token_def cache_hit_def initial_token_cache_def
      fetch_token_def raise_for_status_def timedelta_seconds_def datetime_add_def
      datetime_max_def us_per_second_def relay_response_def forwarded_def)

subsection \<open>CORS header on error responses\<close>

text \<open>
  Claim C5 asks for \<open>Access-Control-Allow-Origin: *\<close> on every response of the two
  routes. The relayed response and the preflight response carry it; the response of the
  \<open>except\<close> branch does not. Two runs show it: a POST on the GraphQL route while the
  identity provider answers 401, and a POST on the introspection route whose upstream
  call times out. Both end in a 500 response whose only header is the content type.
\<close>

theorem cors_header_missing_on_error:
  "proxy_graphql initial_token_cache
     \<lparr>now_check = 63900000000000000, auth = AuthReply 401 NotJson,
      now_set = 63900000000250000, upstream = UpstreamReply 200 ''upstream body''\<rparr>
     \<lparr>request_method = ''POST'', get_json = Inr (JObject [(''query'', JString ''{ __typename }'')])\<rparr>
   = (\<lparr>status = 500, headers = [(''Content-Type'', ''application/json'')],
       body = ErrorJson (HTTPError 401)\<rparr>,
      initial_token_cache,
      [Log Fetching_new_token, AuthPost, Log (Failed_to_get_token (HTTPError 401)),
       Log (Proxy_error (HTTPError 401))]) \<and>
   map_of [(''Content-Type'', ''application/json'')] ''Access-Control-Allow-Origin'' = None \<and>
   map_of (headers (fst (introspection \<lparr>access_token = JString ''abc'', expires_at = Some 63900003540000000\<rparr>
     \<lparr>now_check = 63900000000000000, auth = AuthFailure ''unused'',
      now_set = 63900000000250000, upstream = UpstreamFailure ''timeout''\<rparr>
     \<lparr>request_method = ''POST'', get_json = Inr (JObject [(''query'', JString ''{ __typename }'')])\<rparr>)))
     ''Access-Control-Allow-Origin'' = None"
  by (simp add: introspection_def proxy_graphql_def get_wiz_token_def cache_hit_def initial_token_cache_def
      fetch_token_def raise_for_status_def error_response_def)

subsection \<open>Preflight\<close>

text \<open>
  Claim C6. An OPTIONS request gets status 200 with the three CORS headers; the handler
  performs no event at all (no log line of token resolution, no call to the identity
  provider, no call to the upstream API) and returns the cache it was given.
\<close>

theorem preflight_isolation:
  assumes "request_method req = ''OPTIONS''"
    and "proxy_graphql c w req = (resp, c', tr)"
  shows "status resp = 200 \<and>
         map_of (headers resp) ''Access-Control-Allow-Origin'' = Some ''*'' \<and>
         map_of (headers resp) ''Access-Control-Allow-Methods'' = Some ''POST, OPTIONS'' \<and>
         map_of (headers resp) ''Access-Control-Allow-Headers'' = Some ''Content-Type, Authorization'' \<and>
         tr = [] \<and> \<not> acquired tr \<and> \<not> forwarded tr \<and> c' = c"
  using assms by (auto simp: proxy_graphql_def preflight_response_def acquired_def forwarded_def)

theorem preflight_isolation_witness:
  "proxy_graphql initial_token_cache
     \<lparr>now_check = 63900000000000000, auth = AuthFailure ''connection refused'',
      now_set = 63900000000250000, upstream = UpstreamFailure ''connection refused''\<rparr>
     \<lparr>request_method = ''OPTIONS'', get_json = Inl (HTTPException 415)\<rparr>
   = (\<lparr>status = 200,
       headers = [(''Access-Control-Allow-Origin'', ''*''),
                  (''Access-Control-Allow-Methods'', ''POST, OPTIONS''),
                  (''Access-Control-Allow-Headers'', ''Content-Type, Authorization'')],
       body = Empty\<rparr>,
      initial_token_cache, [])"
proof -
  let ?w = "\<lparr>now_check = 63900000000000000, auth = AuthFailure ''connection refused'',
      now_set = 63900000000250000, upstream = UpstreamFailure ''connection refused''\<rparr>"
  let ?req = "\<lparr>request_method = ''OPTIONS'', get_json = Inl (HTTPException 415)\<rparr>"
  have h1: "request_method ?req = ''OPTIONS''" by simp
  have h2: "proxy_graphql initial_token_cache ?w ?req = (preflight_response, initial_token_cache, [])"
    by (simp add: proxy_graphql_def)
  from preflight_isolation [OF h1 h2] h2 show ?thesis
    by (simp add: preflight_response_def)
qed

subsection \<open>The request body\<close>

text \<open>
  Claim C7, as amended. The handler decodes the request body with \<open>get_json\<close>. For a
  request that is not a preflight and for which a token is available:
  when decoding raises \<open>e\<close>, no call to the upstream API is made and the response is a
  500 with the error body made from \<open>e\<close>;
  when the body decodes to \<open>q\<close>, exactly one call to the upstream API is made, under
  that token, and what it sends is the encoding of \<open>q\<close> as the request body, except
  that for \<open>q = null\<close> it sends no body at all; if that call returns status \<open>S\<close> and
  body \<open>B\<close> the response has them, and if it raises the response is a 500 with the
  error body made from its exception.
\<close>

theorem forwards_decoded_body:
  assumes "request_method req \<noteq> ''OPTIONS''"
    and "get_wiz_token c w = (Inr token, c1, tr1)"
    and "proxy_graphql c w req = (resp, c', tr)"
  shows "(\<forall>e. get_json req = Inl e \<longrightarrow>
            \<not> forwarded tr \<and> status resp = 500 \<and> body resp = ErrorJson e) \<and>
         (\<forall>q. get_json req = Inr q \<longrightarrow>
            filter is_UpstreamPost tr
              = [UpstreamPost token (if q = JNull then None else Some q)] \<and>
            (\<forall>S B. upstream w = UpstreamReply S B \<longrightarrow>
               status resp = S \<and> body resp = Content B) \<and>
            (\<forall>m. upstream w = UpstreamFailure m \<longrightarrow>
               status resp = 500 \<and> body resp = ErrorJson (RequestException m)))"
proof -
  from assms(2) have nf: "\<not> forwarded tr1" by (rule get_wiz_token_trace_not_forwarded)
  then have none: "filter is_UpstreamPost tr1 = []" by (rule no_upstream_posts)
  have undecoded: "\<not> forwarded tr \<and> status resp = 500 \<and> body resp = ErrorJson e"
    if "get_json req = Inl e" for e
    using assms that nf
    by (auto simp: proxy_graphql_post forwarded_append forwarded_def error_response_def)
  have decoded: "filter is_UpstreamPost tr
                   = [UpstreamPost token (if q = JNull then None else Some q)] \<and>
                 (\<forall>S B. upstream w = UpstreamReply S B \<longrightarrow>
                    status resp = S \<and> body resp = Content B) \<and>
                 (\<forall>m. upstream w = UpstreamFailure m \<longrightarrow>
                    status resp = 500 \<and> body resp = ErrorJson (RequestException m))"
    if "get_json req = Inr q" for q
  proof (cases "upstream w")
    case (UpstreamFailure m)
    with assms that none show ?thesis
      by (auto simp: proxy_graphql_post prepare_body_eq error_response_def)
  next
    case (UpstreamReply S B)
    with assms that none show ?thesis
      by (auto simp: proxy_graphql_post prepare_body_eq relay_response_def)
  qed
  from undecoded decoded show ?thesis by blast
qed

theorem forwards_decoded_body_witness:
  "proxy_graphql \<lparr>access_token = JString ''abc'', expires_at = Some 63900003540000000\<rparr>
     \<lparr>now_check = 63900000000000000, auth = AuthFailure ''unused'',
      now_set = 63900000000250000, upstream = UpstreamReply 200 ''upstream body''\<rparr>
     \<lparr>request_method = ''POST'', get_json = Inr (JObject [(''query'', JString ''{ __typename }'')])\<rparr>
   = (\<lparr>status = 200,
       headers = [(''Content-Type'', ''application/json''), (''Access-Control-Allow-Origin'', ''*'')],
       body = Content ''upstream body''\<rparr>,
      \<lparr>access_token = JString ''abc'', expires_at = Some 63900003540000000\<rparr>,
      [Log Using_cached_token, Log Proxying_query,
       UpstreamPost (JString ''abc'') (Some (JObject [(''query'', JString ''{ __typename }'')]))]) \<and>
   filter is_UpstreamPost (snd (snd (proxy_graphql
     \<lparr>access_token = JString ''abc'', expires_at = Some 63900003540000000\<rparr>
     \<lparr>now_check = 63900000000000000, auth = AuthFailure ''unused'',
      now_set = 63900000000250000, upstream = UpstreamFailure ''timeout''\<rparr>
     \<lparr>request_method = ''POST'', get_json = Inr JNull\<rparr>)))
   = [UpstreamPost (JString ''abc'') None] \<and>
   status (fst (proxy_graphql
     \<lparr>access_token = JString ''abc'', expires_at = Some 63900003540000000\<rparr>
     \<lparr>now_check = 63900000000000000, auth = AuthFailure ''unused'',
      now_set = 63900000000250000, upstream = UpstreamFailure ''timeout''\<rparr>
     \<lparr>request_method = ''POST'', get_json = Inr JNull\<rparr>)) = 500 \<and>
   status (fst (proxy_graphql \<lparr>access_token = JString ''abc'', expires_at = Some 63900003540000000\<rparr>
     \<lparr>now_check = 63900000000000000, auth = AuthFailure ''unused'',
      now_set = 63900000000250000, upstream = UpstreamReply 200 ''upstream body''\<rparr>
     \<lparr>request_method = ''POST'', get_json = Inl (HTTPException 415)\<rparr>)) = 500 \<and>
   \<not> forwarded (snd (snd (proxy_graphql \<lparr>access_token = JString ''abc'', expires_at = Some 63900003540000000\<rparr>
     \<lparr>now_check = 63900000000000000, auth = AuthFailure ''unused'',
      now_set = 63900000000250000, upstream = UpstreamReply 200 ''upstream body''\<rparr>
     \<lparr>request_method = ''POST'', get_json = Inl (HTTPException 415)\<rparr>)))"
proof -
  let ?c = "\<lparr>access_token = JString ''abc'', expires_at = Some 63900003540000000\<rparr>"
  let ?w = "\<lparr>now_check = 63900000000000000, auth = AuthFailure ''unused'',
      now_set = 63900000000250000, upstream = UpstreamReply 200 ''upstream body''\<rparr>"
  let ?wf = "\<lparr>now_check = 63900000000000000, auth = AuthFailure ''unused'',
      now_set = 63900000000250000, upstream = UpstreamFailure ''timeout''\<rparr>"
  let ?q = "JObject [(''query'', JString ''{ __typename }'')]"
  let ?req = "\<lparr>request_method = ''POST'', get_json = Inr ?q\<rparr>"
  let ?null = "\<lparr>request_method = ''POST'', get_json = Inr JNull\<rparr>"
  let ?bad = "\<lparr>request_method = ''POST'', get_json = Inl (HTTPException 415)\<rparr>"
  let ?tr = "[Log Using_cached_token, Log Proxying_query, UpstreamPost (JString ''abc'') (Some ?q)]"
  let ?resp = "\<lparr>status = 200,
       headers = [(''Content-Type'', ''application/json''), (''Access-Control-Allow-Origin'', ''*'')],
       body = Content ''upstream body''\<rparr>"
  have h1: "request_method ?req \<noteq> ''OPTIONS''" by simp
  have h2: "get_wiz_token ?c ?w = (Inr (JString ''abc''), ?c, [Log Using_cached_token])"
    by (simp add: get_wiz_token_def cache_hit_def)
  have h3: "proxy_graphql ?c ?w ?req = (?resp, ?c, ?tr)"
    by (simp add: proxy_graphql_def h2 relay_response_def)
  have q: "get_json ?req = Inr ?q" by simp
  have u: "upstream ?w = UpstreamReply 200 ''upstream body''" by simp
  note good = forwards_decoded_body [OF h1 h2 h3, THEN conjunct2, rule_format, OF q]
  from good have g1: "filter is_UpstreamPost ?tr = [UpstreamPost (JString ''abc'') (Some ?q)]"
    by simp
  from good [THEN conjunct2, THEN conjunct1, rule_format, OF u]
  have g2: "status ?resp = 200 \<and> body ?resp = Content ''upstream body''" .
  have n1: "request_method ?null \<noteq> ''OPTIONS''" by simp
  have n2: "get_wiz_token ?c ?wf = (Inr (JString ''abc''), ?c, [Log Using_cached_token])"
    by (simp add: get_wiz_token_def cache_hit_def)
  have n3: "proxy_graphql ?c ?wf ?null
      = (fst (proxy_graphql ?c ?wf ?null), fst (snd (proxy_graphql ?c ?wf ?null)),
         snd (snd (proxy_graphql ?c ?wf ?null)))"
    by simp
  have nq: "get_json ?null = Inr JNull" by simp
  have nu: "upstream ?wf = UpstreamFailure ''timeout''" by simp
  note null = forwards_decoded_body [OF n1 n2 n3, THEN conjunct2, rule_format, OF nq]
  from null have l1: "filter is_UpstreamPost (snd (snd (proxy_graphql ?c ?wf ?null)))
      = [UpstreamPost (JString ''abc'') None]"
    by simp
  from null [THEN conjunct2, THEN conjunct2, rule_format, OF nu]
  have l2: "status (fst (proxy_graphql ?c ?wf ?null)) = 500" by simp
  have b1: "request_method ?bad \<noteq> ''OPTIONS''" by simp
  have b3: "proxy_graphql ?c ?w ?bad
      = (fst (proxy_graphql ?c ?w ?bad), fst (snd (proxy_graphql ?c ?w ?bad)),
         snd (snd (proxy_graphql ?c ?w ?bad)))"
    by simp
  have e: "get_json ?bad = Inl (HTTPException 415)" by simp
  from forwards_decoded_body [OF b1 h2 b3, THEN conjunct1, rule_format, OF e]
  have bad: "\<not> forwarded (snd (snd (proxy_graphql ?c ?w ?bad))) \<and>
             status (fst (proxy_graphql ?c ?w ?bad)) = 500"
    by simp
  from h3 g1 g2 l1 l2 bad show ?thesis by simp
qed

text \<open>
  Claim C7 as stated has forwarding succeed for any inbound body. With a valid cached
  token and a body that does not decode as JSON, nothing is forwarded and the caller
  gets a 500.
\<close>

theorem forwarding_counterexample:
  "proxy_graphql \<lparr>access_token = JString ''abc'', expires_at = Some 63900003540000000\<rparr>
     \<lparr>now_check = 63900000000000000, auth = AuthFailure ''unused'',
      now_set = 63900000000250000, upstream = UpstreamReply 200 ''upstream body''\<rparr>
     \<lparr>request_method = ''POST'', get_json = Inl (HTTPException 400)\<rparr>
   = (\<lparr>status = 500, headers = [(''Content-Type'', ''application/json'')],
       body = ErrorJson (HTTPException 400)\<rparr>,
      \<lparr>access_token = JString ''abc'', expires_at = Some 63900003540000000\<rparr>,
      [Log Using_cached_token, Log (Proxy_error (HTTPException 400))]) \<and>
   \<not> forwarded [Log Using_cached_token, Log (Proxy_error (HTTPException 400))]"
  by (simp add: proxy_graphql_def get_wiz_token_def cache_hit_def error_response_def forwarded_def)

subsection \<open>Failures before the cache is written\<close>

text \<open>
  Claim C9. When the cache is missed and the identity provider answers with a status
  \<open>raise_for_status\<close> rejects (400 to 599), or with a body that is not JSON, then
  \<open>get_wiz_token\<close> raises (\<open>HTTPError\<close> in the first case, \<open>JSONDecodeError\<close> otherwise)
  and returns the cache exactly as it was given.
\<close>

theorem acquisition_failure_atomic:
  assumes "\<not> cache_hit c (now_check w)"
    and "auth w = AuthReply s b"
    and "(400 \<le> s \<and> s < 600) \<or> b = NotJson"
  shows "get_wiz_token c w =
           (Inl (if 400 \<le> s \<and> s < 600 then HTTPError s else JSONDecodeError), c,
            [Log Fetching_new_token, AuthPost,
             Log (Failed_to_get_token (if 400 \<le> s \<and> s < 600 then HTTPError s else JSONDecodeError))])"
  using assms by (auto simp: get_wiz_token_miss fetch_token_def raise_for_status_def)

theorem acquisition_failure_atomic_witness:
  "get_wiz_token \<lparr>access_token = JString ''old'', expires_at = Some 63800000000000000\<rparr>
     \<lparr>now_check = 63900000000000000, auth = AuthReply 401 (JsonBody (JObject [(''access_token'', JString ''abc'')])),
      now_set = 63900000000250000, upstream = UpstreamFailure ''unused''\<rparr>
   = (Inl (HTTPError 401),
      \<lparr>access_token = JString ''old'', expires_at = Some 63800000000000000\<rparr>,
      [Log Fetching_new_token, AuthPost, Log (Failed_to_get_token (HTTPError 401))]) \<and>
   get_wiz_token \<lparr>access_token = JString ''old'', expires_at = Some 63800000000000000\<rparr>
     \<lparr>now_check = 63900000000000000, auth = AuthReply 200 NotJson,
      now_set = 63900000000250000, upstream = UpstreamFailure ''unused''\<rparr>
   = (Inl JSONDecodeError,
      \<lparr>access_token = JString ''old'', expires_at = Some 63800000000000000\<rparr>,
      [Log Fetching_new_token, AuthPost, Log (Failed_to_get_token JSONDecodeError)])"
proof -
  let ?c = "\<lparr>access_token = JString ''old'', expires_at = Some 63800000000000000\<rparr>"
  let ?b = "JsonBody (JObject [(''access_token'', JString ''abc'')])"
  let ?w1 = "\<lparr>now_check = 63900000000000000, auth = AuthReply 401 ?b,
      now_set = 63900000000250000, upstream = UpstreamFailure ''unused''\<rparr>"
  let ?w2 = "\<lparr>now_check = 63900000000000000, auth = AuthReply 200 NotJson,
      now_set = 63900000000250000, upstream = UpstreamFailure ''unused''\<rparr>"
  have m1: "\<not> cache_hit ?c (now_check ?w1)" by (simp add: cache_hit_def)
  have m2: "\<not> cache_hit ?c (now_check ?w2)" by (simp add: cache_hit_def)
  have a1: "auth ?w1 = AuthReply 401 ?b" by simp
  have a2: "auth ?w2 = AuthReply 200 NotJson" by simp
  have f1: "(400 \<le> (401::int) \<and> (401::int) < 600) \<or> ?b = NotJson" by simp
  have f2: "(400 \<le> (200::int) \<and> (200::int) < 600) \<or> NotJson = NotJson" by simp
  from acquisition_failure_atomic [OF m1 a1 f1] acquisition_failure_atomic [OF m2 a2 f2]
  show ?thesis by simp
qed

text \<open>
  Claim C10. When the cache is missed and the identity provider answers, with a status
  that is accepted, a JSON body that has no \<open>access_token\<close> key, then \<open>get_wiz_token\<close>
  raises the error of the failed subscript (\<open>KeyError\<close> for a JSON object, \<open>TypeError\<close>
  for a JSON value that is not an object), which is no \<open>RequestException\<close> and is not
  logged by the \<open>except\<close> clause; the cache is returned as it was given; the handler
  answers 500 with the error body and does not call the upstream API.
\<close>

theorem missing_access_token:
  assumes "\<not> cache_hit c (now_check w)"
    and "auth w = AuthReply s (JsonBody j)"
    and "\<not> (400 \<le> s \<and> s < 600)"
    and "\<forall>kvs. j = JObject kvs \<longrightarrow> map_of kvs ''access_token'' = None"
    and "request_method req \<noteq> ''OPTIONS''"
  shows "\<exists>e. e = (case j of JObject kvs \<Rightarrow> KeyError ''access_token'' | _ \<Rightarrow> TypeError) \<and>
           \<not> is_RequestException e \<and>
           get_wiz_token c w = (Inl e, c, [Log Fetching_new_token, AuthPost]) \<and>
           proxy_graphql c w req =
             (\<lparr>status = 500, headers = [(''Content-Type'', ''application/json'')], body = ErrorJson e\<rparr>,
              c, [Log Fetching_new_token, AuthPost, Log (Proxy_error e)]) \<and>
           \<not> forwarded (snd (snd (proxy_graphql c w req)))"
proof -
  let ?e = "case j of JObject kvs \<Rightarrow> KeyError ''access_token'' | _ \<Rightarrow> TypeError"
  have item: "py_getitem j ''access_token'' = Inl ?e"
    using assms(4) by (cases j) simp_all
  have nr: "\<not> is_RequestException ?e"
    by (cases j) simp_all
  have f: "fetch_token c w = (Inl ?e, c, [AuthPost])"
  proof -
    from assms(3) have "raise_for_status s = Inr ()"
      by (auto simp: raise_for_status_def)
    with assms(2) item show ?thesis by (simp add: fetch_token_def)
  qed
  have g: "get_wiz_token c w = (Inl ?e, c, [Log Fetching_new_token, AuthPost])"
    using nr by (simp add: get_wiz_token_miss [OF assms(1)] f)
  have p: "proxy_graphql c w req =
             (\<lparr>status = 500, headers = [(''Content-Type'', ''application/json'')], body = ErrorJson ?e\<rparr>,
              c, [Log Fetching_new_token, AuthPost, Log (Proxy_error ?e)])"
    by (simp add: proxy_graphql_post [OF assms(5)] g error_response_def)
  have n: "\<not> forwarded (snd (snd (proxy_graphql c w req)))"
    by (simp add: p forwarded_def)
  from nr g p n show ?thesis by blast
qed

theorem missing_access_token_witness:
  "proxy_graphql initial_token_cache
     \<lparr>now_check = 63900000000000000,
      auth = AuthReply 200 (JsonBody (JObject [(''expires_in'', JInt 3600)])),
      now_set = 63900000000250000, upstream = UpstreamReply 200 ''upstream body''\<rparr>
     \<lparr>request_method = ''POST'', get_json = Inr (JObject [(''query'', JString ''{ __typename }'')])\<rparr>
   = (\<lparr>status = 500, headers = [(''Content-Type'', ''application/json'')],
       body = ErrorJson (KeyError ''access_token'')\<rparr>,
      initial_token_cache,
      [Log Fetching_new_token, AuthPost, Log (Proxy_error (KeyError ''access_token''))]) \<and>
   get_wiz_token initial_token_cache
     \<lparr>now_check = 63900000000000000,
      auth = AuthReply 200 (JsonBody (JArray [])),
      now_set = 63900000000250000, upstream = UpstreamReply 200 ''upstream body''\<rparr>
   = (Inl TypeError, initial_token_cache, [Log Fetching_new_token, AuthPost])"
proof -
  let ?w = "\<lparr>now_check = 63900000000000000,
      auth = AuthReply 200 (JsonBody (JObject [(''expires_in'', JInt 3600)])),
      now_set = 63900000000250000, upstream = UpstreamReply 200 ''upstream body''\<rparr>"
  let ?w' = "\<lparr>now_check = 63900000000000000,
      auth = AuthReply 200 (JsonBody (JArray [])),
      now_set = 63900000000250000, upstream = UpstreamReply 200 ''upstream body''\<rparr>"
  let ?req = "\<lparr>request_method = ''POST'', get_json = Inr (JObject [(''query'', JString ''{ __typename }'')])\<rparr>"
  have h1: "\<not> cache_hit initial_token_cache (now_check ?w)"
    by (simp add: cache_hit_def initial_token_cache_def)
  have h2: "auth ?w = AuthReply 200 (JsonBody (JObject [(''expires_in'', JInt 3600)]))"
    by simp
  have h3: "\<not> (400 \<le> (200::int) \<and> (200::int) < 600)" by simp
  have h4: "\<forall>kvs. JObject [(''expires_in'', JInt 3600)] = JObject kvs \<longrightarrow> map_of kvs ''access_token'' = None"
    by auto
  have h5: "request_method ?req \<noteq> ''OPTIONS''" by simp
  have h1': "\<not> cache_hit initial_token_cache (now_check ?w')"
    by (simp add: cache_hit_def initial_token_cache_def)
  have h2': "auth ?w' = AuthReply 200 (JsonBody (JArray []))"
    by simp
  have h4': "\<forall>kvs. JArray [] = JObject kvs \<longrightarrow> map_of kvs ''access_token'' = None"
    by simp
  from missing_access_token [OF h1 h2 h3 h4 h5] missing_access_token [OF h1' h2' h3 h4' h5]
  show ?thesis by simp
qed

end
